theory Spec2Isabelle
  imports Complex_Main "HOL-Library.Sublist"
begin

section \<open>The fine-tuning notebook \<^verbatim>\<open>Fine-Tune.ipynb\<close> as a straight-line program\<close>

text \<open>
  The notebook is a sequence of code cells; each cell is a sequence of Python statements
  that bind notebook variables, set attributes of objects and call into external
  libraries (\<^verbatim>\<open>datasets\<close>, \<^verbatim>\<open>transformers\<close>, \<^verbatim>\<open>peft\<close>, \<^verbatim>\<open>trl\<close>,
  \<^verbatim>\<open>torch\<close>). The model below is a state-passing embedding of exactly these
  statements:
  \<^item> every notebook variable is an optional field of the state (unbound until assigned;
    reading an unbound variable raises \<^verbatim>\<open>NameError\<close>);
  \<^item> every object built by a keyword-argument constructor is a record of the keyword
    arguments written in the notebook;
  \<^item> what the external libraries answer (the loaded dataset, the loaded model's
    configuration, the tokenizer's special tokens, whether a call raises) is not code of
    the notebook: it is a parameter, the record \<open>world\<close>;
  \<^item> every library call and every constructor call that returned is appended to a
    trace, in execution order; a call that raises leaves no entry and stops the run.
\<close>

subsection \<open>Values and objects\<close>

datatype pyerr =
    NameError string
  | ModuleNotFoundError string
  | LibraryError string

text \<open>
  A float written in the notebook is kept as the decimal literal that denotes it:
  \<open>Dec m e\<close> is the float of the literal \<open>m\<close> times ten to the \<open>e\<close>
  (\<^verbatim>\<open>3e-4\<close> is \<open>Dec 3 (-4)\<close>). The notebook does no float arithmetic.
\<close>

datatype pyfloat = Dec int int

text \<open>\<^verbatim>\<open>getattr(torch, name)\<close>: the attribute of the module \<^verbatim>\<open>torch\<close> with that name.\<close>

datatype torch_obj = TorchAttr string

definition torch_getattr :: "string \<Rightarrow> torch_obj" where
  "torch_getattr name = TorchAttr name"

type_synonym json_record = "(string \<times> string) list"
type_synonym dataset = "json_record list"

record quant_config =
  load_in_4bit :: bool
  bnb_4bit_quant_type :: string
  bnb_4bit_compute_dtype :: torch_obj
  bnb_4bit_use_double_quant :: bool

record lora_config =
  lora_alpha :: int
  lora_dropout :: pyfloat
  target_modules :: "string list"
  r :: int
  bias :: string
  task_type :: string

record training_arguments =
  output_dir :: string
  num_train_epochs :: int
  per_device_train_batch_size :: int
  auto_find_batch_size :: bool
  gradient_accumulation_steps :: int
  optim :: string
  logging_steps :: int
  save_steps :: int
  learning_rate :: pyfloat
  weight_decay :: pyfloat
  fp16 :: bool
  bf16 :: bool
  max_grad_norm :: pyfloat
  max_steps :: int
  warmup_ratio :: pyfloat
  group_by_length :: bool
  lr_scheduler_type :: string
  report_to :: string

text \<open>The two attributes of \<^verbatim>\<open>model.config\<close> the notebook writes.\<close>

record model_config =
  use_cache :: bool
  pretraining_tp :: int

text \<open>
  A model handle: the arguments of \<^verbatim>\<open>AutoModelForCausalLM.from_pretrained\<close> it was
  loaded with, and its \<^verbatim>\<open>config\<close> object.
\<close>

record model_handle =
  pretrained_model_name :: string
  quantization_config :: quant_config
  device_map :: string
  config :: model_config

text \<open>
  A tokenizer handle: the arguments of \<^verbatim>\<open>AutoTokenizer.from_pretrained\<close> and the
  three attributes the notebook reads or writes.
\<close>

record tokenizer_handle =
  tokenizer_name :: string
  trust_remote_code :: bool
  eos_token :: "string option"
  pad_token :: "string option"
  padding_side :: string

text \<open>The keyword arguments of \<^verbatim>\<open>SFTTrainer(...)\<close>.\<close>

record sft_trainer =
  model :: model_handle
  train_dataset :: dataset
  peft_config :: lora_config
  dataset_text_field :: string
  max_seq_length :: int
  tokenizer :: tokenizer_handle
  args :: training_arguments
  packing :: bool

subsection \<open>The external libraries\<close>

text \<open>
  Everything the libraries decide. A loader answers with an error or with the part of
  the object the notebook did not write itself; a constructor that validates its keyword
  arguments, and a call made for its effect, answer with an error or with nothing.
\<close>

record world =
  lib_initial_environ :: "string \<Rightarrow> string option"
  lib_module_available :: "string \<Rightarrow> bool"
  lib_load_dataset :: "string \<Rightarrow> string \<Rightarrow> string \<Rightarrow> pyerr + dataset"
  lib_bits_and_bytes_config :: "quant_config \<Rightarrow> pyerr option"
  lib_model_from_pretrained :: "string \<Rightarrow> quant_config \<Rightarrow> string \<Rightarrow> pyerr + model_config"
  lib_tokenizer_from_pretrained ::
    "string \<Rightarrow> bool \<Rightarrow> pyerr + (string option \<times> string option \<times> string)"
  lib_lora_config :: "lora_config \<Rightarrow> pyerr option"
  lib_training_arguments :: "training_arguments \<Rightarrow> pyerr option"
  lib_sft_trainer :: "sft_trainer \<Rightarrow> pyerr option"
  lib_train :: "sft_trainer \<Rightarrow> pyerr option"
  lib_model_save_pretrained :: "model_handle \<Rightarrow> string \<Rightarrow> pyerr option"
  lib_tokenizer_save_pretrained :: "tokenizer_handle \<Rightarrow> string \<Rightarrow> pyerr option"

text \<open>The library calls and constructor calls of the notebook, with their arguments.\<close>

datatype event =
    CudaEmptyCache
  | LoadDataset string string string
  | BitsAndBytesConfig quant_config
  | ModelFromPretrained string quant_config string
  | TokenizerFromPretrained string bool
  | LoraConfig lora_config
  | TrainingArguments training_arguments
  | SFTTrainer sft_trainer
  | Train
  | ModelSavePretrained model_handle string
  | TokenizerSavePretrained tokenizer_handle string

subsection \<open>The notebook state\<close>

record nb_state =
  imported :: "string list"
  environ :: "string \<Rightarrow> string option"
  v_base_model :: "string option"
  v_new_model :: "string option"
  v_dataset :: "dataset option"
  v_compute_dtype :: "torch_obj option"
  v_quant_config :: "quant_config option"
  v_gpu_id :: "string option"
  v_device :: "string option"
  v_model :: "model_handle option"
  v_tokenizer :: "tokenizer_handle option"
  v_target_modules :: "string list option"
  v_peft_params :: "lora_config option"
  v_training_params :: "training_arguments option"
  v_trainer :: "sft_trainer option"
  trace :: "event list"

definition initial_state :: "world \<Rightarrow> nb_state" where
  "initial_state w =
     \<lparr>imported = [], environ = lib_initial_environ w,
      v_base_model = None, v_new_model = None, v_dataset = None,
      v_compute_dtype = None, v_quant_config = None, v_gpu_id = None, v_device = None,
      v_model = None, v_tokenizer = None, v_target_modules = None, v_peft_params = None,
      v_training_params = None, v_trainer = None, trace = []\<rparr>"

type_synonym stmt = "nb_state \<Rightarrow> pyerr + nb_state"

text \<open>Reading an imported name, and reading a notebook variable.\<close>

definition name_bound :: "string \<Rightarrow> nb_state \<Rightarrow> (pyerr + 'a) \<Rightarrow> pyerr + 'a" where
  "name_bound n s k = (if n \<in> set (imported s) then k else Inl (NameError n))"

definition var :: "string \<Rightarrow> 'v option \<Rightarrow> ('v \<Rightarrow> pyerr + 'a) \<Rightarrow> pyerr + 'a" where
  "var n x k = (case x of None \<Rightarrow> Inl (NameError n) | Some v \<Rightarrow> k v)"

definition import_from :: "world \<Rightarrow> string \<Rightarrow> string list \<Rightarrow> stmt" where
  "import_from w modname names s =
     (if lib_module_available w modname then Inr (s\<lparr>imported := imported s @ names\<rparr>)
      else Inl (ModuleNotFoundError modname))"

definition log :: "event \<Rightarrow> nb_state \<Rightarrow> nb_state" where
  "log e s = s\<lparr>trace := trace s @ [e]\<rparr>"

subsection \<open>Cell 1: imports, allocator setting\<close>

definition stmt_environ :: stmt where
  "stmt_environ s =
     name_bound ''os'' s
       (Inr (s\<lparr>environ := (environ s)(''PYTORCH_CUDA_ALLOC_CONF'' \<mapsto> ''max_split_size_mb:512'')\<rparr>))"

definition stmt_empty_cache :: stmt where
  "stmt_empty_cache s = name_bound ''torch'' s (Inr (log CudaEmptyCache s))"

definition cell_imports :: "world \<Rightarrow> stmt list" where
  "cell_imports w =
     [import_from w ''os'' [''os''],
      import_from w ''torch'' [''torch''],
      import_from w ''datasets'' [''load_dataset''],
      import_from w ''transformers''
        [''AutoModelForCausalLM'', ''AutoTokenizer'', ''BitsAndBytesConfig'',
         ''TrainingArguments'', ''pipeline'', ''logging''],
      import_from w ''peft'' [''LoraConfig''],
      import_from w ''trl'' [''SFTTrainer''],
      stmt_environ,
      stmt_empty_cache]"

subsection \<open>Cell 2: model names\<close>

definition stmt_base_model :: stmt where
  "stmt_base_model s = Inr (s\<lparr>v_base_model := Some ''deepseek-ai/deepseek-coder-6.7b-instruct''\<rparr>)"

definition stmt_new_model :: stmt where
  "stmt_new_model s =
     Inr (s\<lparr>v_new_model := Some ''DeepSeek-6-7b-instruct-Verilog-caseif-V4-256-QKV''\<rparr>)"

definition cell_names :: "stmt list" where
  "cell_names = [stmt_base_model, stmt_new_model]"

subsection \<open>Cell 3: dataset\<close>

definition stmt_dataset :: "world \<Rightarrow> stmt" where
  "stmt_dataset w s =
     name_bound ''load_dataset'' s
       (case lib_load_dataset w ''json'' ''./Adapted_dataset 3.json'' ''train'' of
          Inl e \<Rightarrow> Inl e
        | Inr d \<Rightarrow>
            Inr (log (LoadDataset ''json'' ''./Adapted_dataset 3.json'' ''train'')
                   (s\<lparr>v_dataset := Some d\<rparr>)))"

definition cell_dataset :: "world \<Rightarrow> stmt list" where
  "cell_dataset w = [stmt_dataset w]"

subsection \<open>Cell 4: 4-bit quantization configuration\<close>

definition stmt_compute_dtype :: stmt where
  "stmt_compute_dtype s =
     name_bound ''torch'' s (Inr (s\<lparr>v_compute_dtype := Some (torch_getattr ''float16'')\<rparr>))"

text \<open>The keyword arguments of \<^verbatim>\<open>BitsAndBytesConfig(...)\<close> as the cell writes them.\<close>

definition quant_config_kwargs :: "torch_obj \<Rightarrow> quant_config" where
  "quant_config_kwargs compute_dtype =
     \<lparr>load_in_4bit = True,
      bnb_4bit_quant_type = ''nf4'',
      bnb_4bit_compute_dtype = compute_dtype,
      bnb_4bit_use_double_quant = True\<rparr>"

definition stmt_quant_config :: "world \<Rightarrow> stmt" where
  "stmt_quant_config w s =
     name_bound ''BitsAndBytesConfig'' s
       (var ''compute_dtype'' (v_compute_dtype s) (\<lambda>dt.
          let q = quant_config_kwargs dt
          in case lib_bits_and_bytes_config w q of
               Some e \<Rightarrow> Inl e
             | None \<Rightarrow> Inr (log (BitsAndBytesConfig q) (s\<lparr>v_quant_config := Some q\<rparr>))))"

definition cell_quant :: "world \<Rightarrow> stmt list" where
  "cell_quant w = [stmt_compute_dtype, stmt_quant_config w]"

subsection \<open>Cell 5: model\<close>

definition stmt_gpu_id :: stmt where
  "stmt_gpu_id s = Inr (s\<lparr>v_gpu_id := Some ''cuda:0''\<rparr>)"

text \<open>\<^verbatim>\<open>torch.device(gpu_id)\<close> is kept as the device string; nothing reads \<open>device\<close>.\<close>

definition stmt_device :: stmt where
  "stmt_device s =
     name_bound ''torch'' s
       (var ''gpu_id'' (v_gpu_id s) (\<lambda>g. Inr (s\<lparr>v_device := Some g\<rparr>)))"

definition stmt_model :: "world \<Rightarrow> stmt" where
  "stmt_model w s =
     name_bound ''AutoModelForCausalLM'' s
       (var ''base_model'' (v_base_model s) (\<lambda>b.
        var ''quant_config'' (v_quant_config s) (\<lambda>q.
          case lib_model_from_pretrained w b q ''auto'' of
            Inl e \<Rightarrow> Inl e
          | Inr c \<Rightarrow>
              Inr (log (ModelFromPretrained b q ''auto'')
                     (s\<lparr>v_model := Some \<lparr>pretrained_model_name = b,
                                          quantization_config = q,
                                          device_map = ''auto'',
                                          config = c\<rparr>\<rparr>)))))"

definition stmt_use_cache :: stmt where
  "stmt_use_cache s =
     var ''model'' (v_model s) (\<lambda>m.
       Inr (s\<lparr>v_model := Some (m\<lparr>config := (config m)\<lparr>use_cache := False\<rparr>\<rparr>)\<rparr>))"

definition stmt_pretraining_tp :: stmt where
  "stmt_pretraining_tp s =
     var ''model'' (v_model s) (\<lambda>m.
       Inr (s\<lparr>v_model := Some (m\<lparr>config := (config m)\<lparr>pretraining_tp := 1\<rparr>\<rparr>)\<rparr>))"

definition cell_model :: "world \<Rightarrow> stmt list" where
  "cell_model w = [stmt_gpu_id, stmt_device, stmt_model w, stmt_use_cache, stmt_pretraining_tp]"

subsection \<open>Cell 6: tokenizer\<close>

definition stmt_tokenizer :: "world \<Rightarrow> stmt" where
  "stmt_tokenizer w s =
     name_bound ''AutoTokenizer'' s
       (var ''base_model'' (v_base_model s) (\<lambda>b.
          case lib_tokenizer_from_pretrained w b True of
            Inl e \<Rightarrow> Inl e
          | Inr (eos, pad, side) \<Rightarrow>
              Inr (log (TokenizerFromPretrained b True)
                     (s\<lparr>v_tokenizer := Some \<lparr>tokenizer_name = b,
                                              trust_remote_code = True,
                                              eos_token = eos,
                                              pad_token = pad,
                                              padding_side = side\<rparr>\<rparr>))))"

definition stmt_pad_token :: stmt where
  "stmt_pad_token s =
     var ''tokenizer'' (v_tokenizer s) (\<lambda>t.
       Inr (s\<lparr>v_tokenizer := Some (t\<lparr>pad_token := eos_token t\<rparr>)\<rparr>))"

definition stmt_padding_side :: stmt where
  "stmt_padding_side s =
     var ''tokenizer'' (v_tokenizer s) (\<lambda>t.
       Inr (s\<lparr>v_tokenizer := Some (t\<lparr>padding_side := ''right''\<rparr>)\<rparr>))"

definition cell_tokenizer :: "world \<Rightarrow> stmt list" where
  "cell_tokenizer w = [stmt_tokenizer w, stmt_pad_token, stmt_padding_side]"

subsection \<open>Cell 7: PEFT parameters\<close>

definition stmt_target_modules :: stmt where
  "stmt_target_modules s = Inr (s\<lparr>v_target_modules := Some [''q_proj'', ''k_proj'', ''v_proj'']\<rparr>)"

text \<open>The keyword arguments of \<^verbatim>\<open>LoraConfig(...)\<close> as the cell writes them.\<close>

definition lora_config_kwargs :: "string list \<Rightarrow> lora_config" where
  "lora_config_kwargs tm =
     \<lparr>lora_alpha = 256,
      lora_dropout = Dec 1 (-1),
      target_modules = tm,
      r = 256,
      bias = ''none'',
      task_type = ''CAUSAL_LM''\<rparr>"

definition stmt_peft_params :: "world \<Rightarrow> stmt" where
  "stmt_peft_params w s =
     name_bound ''LoraConfig'' s
       (var ''target_modules'' (v_target_modules s) (\<lambda>tm.
          let p = lora_config_kwargs tm
          in case lib_lora_config w p of
               Some e \<Rightarrow> Inl e
             | None \<Rightarrow> Inr (log (LoraConfig p) (s\<lparr>v_peft_params := Some p\<rparr>))))"

definition cell_peft :: "world \<Rightarrow> stmt list" where
  "cell_peft w = [stmt_target_modules, stmt_peft_params w]"

subsection \<open>Cell 8: training parameters\<close>

text \<open>The keyword arguments of \<^verbatim>\<open>TrainingArguments(...)\<close> as the cell writes them.\<close>

definition training_arguments_kwargs :: training_arguments where
  "training_arguments_kwargs =
     \<lparr>output_dir = ''./Trained_models'',
      num_train_epochs = 1,
      per_device_train_batch_size = 5,
      auto_find_batch_size = False,
      gradient_accumulation_steps = 1,
      optim = ''paged_adamw_32bit'',
      logging_steps = 5,
      save_steps = 54486,
      learning_rate = Dec 3 (-4),
      weight_decay = Dec 1 (-3),
      fp16 = False,
      bf16 = True,
      max_grad_norm = Dec 3 (-1),
      max_steps = -1,
      warmup_ratio = Dec 3 (-2),
      group_by_length = True,
      lr_scheduler_type = ''constant'',
      report_to = ''tensorboard''\<rparr>"

definition stmt_training_params :: "world \<Rightarrow> stmt" where
  "stmt_training_params w s =
     name_bound ''TrainingArguments'' s
       (let a = training_arguments_kwargs
        in case lib_training_arguments w a of
             Some e \<Rightarrow> Inl e
           | None \<Rightarrow> Inr (log (TrainingArguments a) (s\<lparr>v_training_params := Some a\<rparr>)))"

definition cell_training :: "world \<Rightarrow> stmt list" where
  "cell_training w = [stmt_training_params w]"

subsection \<open>Cells 9 to 11: trainer, training, saving\<close>

definition stmt_trainer :: "world \<Rightarrow> stmt" where
  "stmt_trainer w s =
     name_bound ''SFTTrainer'' s
       (var ''model'' (v_model s) (\<lambda>m.
        var ''dataset'' (v_dataset s) (\<lambda>d.
        var ''peft_params'' (v_peft_params s) (\<lambda>p.
        var ''tokenizer'' (v_tokenizer s) (\<lambda>tk.
        var ''training_params'' (v_training_params s) (\<lambda>a.
          let t = \<lparr>model = m,
                   train_dataset = d,
                   peft_config = p,
                   dataset_text_field = ''text'',
                   max_seq_length = 2048,
                   tokenizer = tk,
                   args = a,
                   packing = False\<rparr>
          in case lib_sft_trainer w t of
               Some e \<Rightarrow> Inl e
             | None \<Rightarrow> Inr (log (SFTTrainer t) (s\<lparr>v_trainer := Some t\<rparr>))))))))"

definition cell_trainer :: "world \<Rightarrow> stmt list" where
  "cell_trainer w = [stmt_trainer w]"

definition stmt_train :: "world \<Rightarrow> stmt" where
  "stmt_train w s =
     var ''trainer'' (v_trainer s) (\<lambda>t.
       case lib_train w t of
         Some e \<Rightarrow> Inl e
       | None \<Rightarrow> Inr (log Train s))"

definition cell_train :: "world \<Rightarrow> stmt list" where
  "cell_train w = [stmt_train w]"

definition stmt_save_model :: "world \<Rightarrow> stmt" where
  "stmt_save_model w s =
     var ''trainer'' (v_trainer s) (\<lambda>t.
     var ''new_model'' (v_new_model s) (\<lambda>d.
       case lib_model_save_pretrained w (model t) d of
         Some e \<Rightarrow> Inl e
       | None \<Rightarrow> Inr (log (ModelSavePretrained (model t) d) s)))"

definition stmt_save_tokenizer :: "world \<Rightarrow> stmt" where
  "stmt_save_tokenizer w s =
     var ''trainer'' (v_trainer s) (\<lambda>t.
     var ''new_model'' (v_new_model s) (\<lambda>d.
       case lib_tokenizer_save_pretrained w (tokenizer t) d of
         Some e \<Rightarrow> Inl e
       | None \<Rightarrow> Inr (log (TokenizerSavePretrained (tokenizer t) d) s)))"

definition cell_save :: "world \<Rightarrow> stmt list" where
  "cell_save w = [stmt_save_model w, stmt_save_tokenizer w]"

subsection \<open>Running the notebook\<close>

definition notebook :: "world \<Rightarrow> stmt list list" where
  "notebook w =
     [cell_imports w, cell_names, cell_dataset w, cell_quant w, cell_model w,
      cell_tokenizer w, cell_peft w, cell_training w, cell_trainer w, cell_train w,
      cell_save w]"

text \<open>
  Statements run in order; the first one that raises stops the run, and the state is
  what the statements before it left (the kernel keeps it).
\<close>

fun run_stmts :: "stmt list \<Rightarrow> nb_state \<Rightarrow> nb_state \<times> pyerr option" where
  "run_stmts [] s = (s, None)"
| "run_stmts (c # cs) s =
     (case c s of Inl e \<Rightarrow> (s, Some e) | Inr s' \<Rightarrow> run_stmts cs s')"

definition run_all :: "world \<Rightarrow> nb_state \<times> pyerr option" where
  "run_all w = run_stmts (concat (notebook w)) (initial_state w)"

text \<open>A world in which every library call succeeds, for concrete runs.\<close>

definition sample_world :: world where
  "sample_world =
     \<lparr>lib_initial_environ = (\<lambda>_. None),
      lib_module_available = (\<lambda>_. True),
      lib_load_dataset = (\<lambda>_ _ _. Inr [ [(''text'', ''module m; endmodule'')] ]),
      lib_bits_and_bytes_config = (\<lambda>_. None),
      lib_model_from_pretrained = (\<lambda>_ _ _. Inr \<lparr>use_cache = True, pretraining_tp = 2\<rparr>),
      lib_tokenizer_from_pretrained = (\<lambda>_ _. Inr (Some ''<EOS>'', None, ''left'')),
      lib_lora_config = (\<lambda>_. None),
      lib_training_arguments = (\<lambda>_. None),
      lib_sft_trainer = (\<lambda>_. None),
      lib_train = (\<lambda>_. None),
      lib_model_save_pretrained = (\<lambda>_ _. None),
      lib_tokenizer_save_pretrained = (\<lambda>_ _. None)\<rparr>"

text \<open>The state that world's run ends in: every name imported, every variable bound.\<close>

definition sample_model :: model_handle where
  "sample_model =
     \<lparr>pretrained_model_name = ''deepseek-ai/deepseek-coder-6.7b-instruct'',
      quantization_config = quant_config_kwargs (TorchAttr ''float16''),
      device_map = ''auto'',
      config = \<lparr>use_cache = False, pretraining_tp = 1\<rparr>\<rparr>"

definition sample_tokenizer :: tokenizer_handle where
  "sample_tokenizer =
     \<lparr>tokenizer_name = ''deepseek-ai/deepseek-coder-6.7b-instruct'',
      trust_remote_code = True,
      eos_token = Some ''<EOS>'',
      pad_token = Some ''<EOS>'',
      padding_side = ''right''\<rparr>"

definition sample_trainer :: sft_trainer where
  "sample_trainer =
     \<lparr>model = sample_model,
      train_dataset = [ [(''text'', ''module m; endmodule'')] ],
      peft_config = lora_config_kwargs [''q_proj'', ''k_proj'', ''v_proj''],
      dataset_text_field = ''text'',
      max_seq_length = 2048,
      tokenizer = sample_tokenizer,
      args = training_arguments_kwargs,
      packing = False\<rparr>"

definition sample_state :: nb_state where
  "sample_state =
     \<lparr>imported =
        [''os'', ''torch'', ''load_dataset'', ''AutoModelForCausalLM'', ''AutoTokenizer'',
         ''BitsAndBytesConfig'', ''TrainingArguments'', ''pipeline'', ''logging'',
         ''LoraConfig'', ''SFTTrainer''],
      environ = (\<lambda>_. None)(''PYTORCH_CUDA_ALLOC_CONF'' \<mapsto> ''max_split_size_mb:512''),
      v_base_model = Some ''deepseek-ai/deepseek-coder-6.7b-instruct'',
      v_new_model = Some ''DeepSeek-6-7b-instruct-Verilog-caseif-V4-256-QKV'',
      v_dataset = Some [ [(''text'', ''module m; endmodule'')] ],
      v_compute_dtype = Some (TorchAttr ''float16''),
      v_quant_config = Some (quant_config_kwargs (TorchAttr ''float16'')),
      v_gpu_id = Some ''cuda:0'',
      v_device = Some ''cuda:0'',
      v_model = Some sample_model,
      v_tokenizer = Some sample_tokenizer,
      v_target_modules = Some [''q_proj'', ''k_proj'', ''v_proj''],
      v_peft_params = Some (lora_config_kwargs [''q_proj'', ''k_proj'', ''v_proj'']),
      v_training_params = Some training_arguments_kwargs,
      v_trainer = Some sample_trainer,
      trace =
        [CudaEmptyCache,
         LoadDataset ''json'' ''./Adapted_dataset 3.json'' ''train'',
         BitsAndBytesConfig (quant_config_kwargs (TorchAttr ''float16'')),
         ModelFromPretrained ''deepseek-ai/deepseek-coder-6.7b-instruct''
           (quant_config_kwargs (TorchAttr ''float16'')) ''auto'',
         TokenizerFromPretrained ''deepseek-ai/deepseek-coder-6.7b-instruct'' True,
         LoraConfig (lora_config_kwargs [''q_proj'', ''k_proj'', ''v_proj'']),
         TrainingArguments training_arguments_kwargs,
         SFTTrainer sample_trainer,
         Train,
         ModelSavePretrained sample_model ''DeepSeek-6-7b-instruct-Verilog-caseif-V4-256-QKV'',
         TokenizerSavePretrained sample_tokenizer
           ''DeepSeek-6-7b-instruct-Verilog-caseif-V4-256-QKV'']\<rparr>"

subsection \<open>What the run leaves behind: pipeline stages, directories\<close>

text \<open>The stages of the pipeline, read off the completed calls in the trace.\<close>

datatype stage =
    DatasetLoad | QuantConfig | ModelLoad | TokenizerLoad | AdapterConfig | TrainingConfig
  | TrainerConstruction | TrainRun | SaveAdapter | SaveTokenizer

fun stage_of :: "event \<Rightarrow> stage option" where
  "stage_of CudaEmptyCache = None"
| "stage_of (LoadDataset _ _ _) = Some DatasetLoad"
| "stage_of (BitsAndBytesConfig _) = Some QuantConfig"
| "stage_of (ModelFromPretrained _ _ _) = Some ModelLoad"
| "stage_of (TokenizerFromPretrained _ _) = Some TokenizerLoad"
| "stage_of (LoraConfig _) = Some AdapterConfig"
| "stage_of (TrainingArguments _) = Some TrainingConfig"
| "stage_of (SFTTrainer _) = Some TrainerConstruction"
| "stage_of Train = Some TrainRun"
| "stage_of (ModelSavePretrained _ _) = Some SaveAdapter"
| "stage_of (TokenizerSavePretrained _ _) = Some SaveTokenizer"

definition stages :: "event list \<Rightarrow> stage list" where
  "stages tr = List.map_filter stage_of tr"

definition pipeline_order :: "stage list" where
  "pipeline_order =
     [DatasetLoad, QuantConfig, ModelLoad, TokenizerLoad, AdapterConfig, TrainingConfig,
      TrainerConstruction, TrainRun, SaveAdapter, SaveTokenizer]"

text \<open>
  What the explicit save calls put into which directory: \<^verbatim>\<open>save_pretrained(d)\<close> of
  the trainer's model writes the adapter weights file into \<open>d\<close>, that of the tokenizer
  writes the tokenizer files into \<open>d\<close>. (The checkpoints that \<^verbatim>\<open>train()\<close> writes
  under \<open>output_dir\<close> are the library's business and are not listed.)
\<close>

datatype artifact = AdapterWeights | TokenizerFiles

fun written :: "event \<Rightarrow> (string \<times> artifact) list" where
  "written (ModelSavePretrained _ d) = [(d, AdapterWeights)]"
| "written (TokenizerSavePretrained _ d) = [(d, TokenizerFiles)]"
| "written _ = []"

definition dir_contents :: "event list \<Rightarrow> string \<Rightarrow> artifact list" where
  "dir_contents tr d = map snd (filter (\<lambda>x. fst x = d) (concat (map written tr)))"

text \<open>
  Two relative directory names are separate when neither is the other nor lies inside
  the other, comparing their components (empty components and \<^verbatim>\<open>.\<close> dropped).
\<close>

fun split_on :: "char \<Rightarrow> string \<Rightarrow> string list" where
  "split_on c [] = [ [] ]"
| "split_on c (x # xs) =
     (if x = c then [] # split_on c xs
      else (case split_on c xs of [] \<Rightarrow> [ [x] ] | p # ps \<Rightarrow> (x # p) # ps))"

definition path_components :: "string \<Rightarrow> string list" where
  "path_components p = filter (\<lambda>c. c \<noteq> [] \<and> c \<noteq> ''.'') (split_on CHR ''/'' p)"

definition separate_dirs :: "string \<Rightarrow> string \<Rightarrow> bool" where
  "separate_dirs p q =
     (\<not> prefix (path_components p) (path_components q) \<and>
      \<not> prefix (path_components q) (path_components p))"

subsection \<open>Assertions at program points\<close>

text \<open>
  \<open>vc P c Q\<close>: if \<open>P\<close> holds and statement \<open>c\<close> returns, \<open>Q\<close> holds afterwards.
  \<open>vcs A k cs\<close>: the statements \<open>cs\<close>, the first of them at position \<open>k\<close>, carry the
  assertion \<open>A i\<close> from each position \<open>i\<close> to the next.
\<close>

definition vc :: "(nb_state \<Rightarrow> bool) \<Rightarrow> stmt \<Rightarrow> (nb_state \<Rightarrow> bool) \<Rightarrow> bool" where
  "vc P c Q = (\<forall>s s'. P s \<longrightarrow> c s = Inr s' \<longrightarrow> Q s')"

fun vcs :: "(nat \<Rightarrow> nb_state \<Rightarrow> bool) \<Rightarrow> nat \<Rightarrow> stmt list \<Rightarrow> bool" where
  "vcs A k [] = True"
| "vcs A k (c # cs) = (vc (A k) c (A (Suc k)) \<and> vcs A (Suc k) cs)"

subsection \<open>Invariants of the notebook\<close>

text \<open>
  \<open>event_ok\<close>: the arguments a call of the notebook can only have been made with.
  \<open>config_inv\<close> holds in every state the statements of the notebook can reach, in
  whatever order they run: each variable, once bound, holds the value its one
  assignment writes.
\<close>

fun event_ok :: "event \<Rightarrow> bool" where
  "event_ok (BitsAndBytesConfig q) = (q = quant_config_kwargs (TorchAttr ''float16''))"
| "event_ok (ModelFromPretrained b q d) =
     (b = ''deepseek-ai/deepseek-coder-6.7b-instruct'' \<and>
      q = quant_config_kwargs (TorchAttr ''float16'') \<and> d = ''auto'')"
| "event_ok (TokenizerFromPretrained b f) =
     (b = ''deepseek-ai/deepseek-coder-6.7b-instruct'' \<and> f)"
| "event_ok (LoraConfig p) = (p = lora_config_kwargs [''q_proj'', ''k_proj'', ''v_proj''])"
| "event_ok (TrainingArguments a) = (a = training_arguments_kwargs)"
| "event_ok (SFTTrainer t) =
     (peft_config t = lora_config_kwargs [''q_proj'', ''k_proj'', ''v_proj''] \<and>
      args t = training_arguments_kwargs \<and>
      pretrained_model_name (model t) = ''deepseek-ai/deepseek-coder-6.7b-instruct'' \<and>
      tokenizer_name (tokenizer t) = ''deepseek-ai/deepseek-coder-6.7b-instruct'' \<and>
      dataset_text_field t = ''text'' \<and> max_seq_length t = 2048 \<and> \<not> packing t)"
| "event_ok (ModelSavePretrained m d) =
     (d = ''DeepSeek-6-7b-instruct-Verilog-caseif-V4-256-QKV'')"
| "event_ok (TokenizerSavePretrained tk d) =
     (d = ''DeepSeek-6-7b-instruct-Verilog-caseif-V4-256-QKV'')"
| "event_ok _ = True"

definition config_inv :: "nb_state \<Rightarrow> bool" where
  "config_inv s =
     ((\<forall>dt. v_compute_dtype s = Some dt \<longrightarrow> dt = TorchAttr ''float16'') \<and>
      (\<forall>q. v_quant_config s = Some q \<longrightarrow> q = quant_config_kwargs (TorchAttr ''float16'')) \<and>
      (\<forall>b. v_base_model s = Some b \<longrightarrow> b = ''deepseek-ai/deepseek-coder-6.7b-instruct'') \<and>
      (\<forall>d. v_new_model s = Some d \<longrightarrow> d = ''DeepSeek-6-7b-instruct-Verilog-caseif-V4-256-QKV'') \<and>
      (\<forall>tm. v_target_modules s = Some tm \<longrightarrow> tm = [''q_proj'', ''k_proj'', ''v_proj'']) \<and>
      (\<forall>p. v_peft_params s = Some p \<longrightarrow> p = lora_config_kwargs [''q_proj'', ''k_proj'', ''v_proj'']) \<and>
      (\<forall>a. v_training_params s = Some a \<longrightarrow> a = training_arguments_kwargs) \<and>
      (\<forall>m. v_model s = Some m \<longrightarrow>
           pretrained_model_name m = ''deepseek-ai/deepseek-coder-6.7b-instruct'') \<and>
      (\<forall>tk. v_tokenizer s = Some tk \<longrightarrow>
           tokenizer_name tk = ''deepseek-ai/deepseek-coder-6.7b-instruct'') \<and>
      (\<forall>t. v_trainer s = Some t \<longrightarrow> SFTTrainer t \<in> set (trace s)) \<and>
      ((\<exists>b q d. ModelFromPretrained b q d \<in> set (trace s)) \<longrightarrow> v_quant_config s \<noteq> None) \<and>
      (\<forall>e\<in>set (trace s). event_ok e))"

text \<open>
  \<open>pos_inv k\<close> holds after the first \<open>k\<close> statements of the notebook have run in
  order; \<open>stage_count k\<close> is the number of pipeline stages completed by then.
\<close>

text \<open>
  The dataset load is statement 11, the quantization config 13, the model load 16, the
  tokenizer load 19, and statements 23 to 28 complete one stage each.
\<close>

definition stage_count :: "nat \<Rightarrow> nat" where
  "stage_count k =
     (if k < 11 then 0 else if k < 13 then 1 else if k < 16 then 2 else if k < 19 then 3
      else if k < 23 then 4 else k - 18)"

definition pos_inv :: "nat \<Rightarrow> nb_state \<Rightarrow> bool" where
  "pos_inv k s =
     ((7 \<le> k \<longrightarrow> environ s ''PYTORCH_CUDA_ALLOC_CONF'' = Some ''max_split_size_mb:512'') \<and>
      stages (trace s) = take (stage_count k) pipeline_order \<and>
      (k < 16 \<longrightarrow> (\<forall>b q d. ModelFromPretrained b q d \<notin> set (trace s))) \<and>
      (17 \<le> k \<longrightarrow> (\<exists>m. v_model s = Some m \<and> \<not> use_cache (config m))) \<and>
      (19 \<le> k \<longrightarrow> (\<exists>b. TokenizerFromPretrained b True \<in> set (trace s))) \<and>
      (20 \<le> k \<longrightarrow> (\<exists>tk. v_tokenizer s = Some tk \<and> pad_token tk = eos_token tk)) \<and>
      (21 \<le> k \<longrightarrow> (\<exists>tk. v_tokenizer s = Some tk \<and> padding_side tk = ''right'')) \<and>
      (25 \<le> k \<longrightarrow> v_trainer s \<noteq> None) \<and>
      (27 \<le> k \<longrightarrow>
         (\<exists>t d. v_trainer s = Some t \<and> ModelSavePretrained (model t) d \<in> set (trace s))) \<and>
      (28 \<le> k \<longrightarrow>
         (\<exists>t d. v_trainer s = Some t \<and> TokenizerSavePretrained (tokenizer t) d \<in> set (trace s))) \<and>
      (\<forall>t. SFTTrainer t \<in> set (trace s) \<longrightarrow>
           \<not> use_cache (config (model t)) \<and>
           pad_token (tokenizer t) = eos_token (tokenizer t) \<and>
           padding_side (tokenizer t) = ''right''))"

lemmas cell_defs =
  cell_imports_def cell_names_def cell_dataset_def cell_quant_def cell_model_def
  cell_tokenizer_def cell_peft_def cell_training_def cell_trainer_def cell_train_def
  cell_save_def

lemmas stmt_defs =
  import_from_def stmt_environ_def stmt_empty_cache_def stmt_base_model_def
  stmt_new_model_def stmt_dataset_def stmt_compute_dtype_def stmt_quant_config_def
  stmt_gpu_id_def stmt_device_def stmt_model_def stmt_use_cache_def
  stmt_pretraining_tp_def stmt_tokenizer_def stmt_pad_token_def stmt_padding_side_def
  stmt_target_modules_def stmt_peft_params_def stmt_training_params_def stmt_trainer_def
  stmt_train_def stmt_save_model_def stmt_save_tokenizer_def
  name_bound_def var_def log_def torch_getattr_def

section \<open>Running statement lists\<close>

lemma vcs_run:
  "vcs A k cs \<Longrightarrow> A k s \<Longrightarrow>
   \<exists>j\<le>length cs. A (k + j) (fst (run_stmts cs s)) \<and>
      (snd (run_stmts cs s) = None \<longrightarrow> j = length cs)"
proof (induction cs arbitrary: k s)
  case Nil
  then show ?case by simp
next
  case (Cons c cs)
  show ?case
  proof (cases "c s")
    case (Inl e)
    have "A (k + 0) (fst (run_stmts (c # cs) s))" using Cons.prems(2) Inl by simp
    moreover have "snd (run_stmts (c # cs) s) \<noteq> None" using Inl by simp
    ultimately show ?thesis by (intro exI[of _ 0]) simp
  next
    case (Inr s')
    from Cons.prems Inr have a: "A (Suc k) s'" and v: "vcs A (Suc k) cs"
      by (simp_all add: vc_def)
    from Cons.IH[OF v a] obtain j where
      j: "j \<le> length cs" "A (Suc k + j) (fst (run_stmts cs s'))"
         "snd (run_stmts cs s') = None \<longrightarrow> j = length cs" by auto
    have "Suc j \<le> length (c # cs)" using j(1) by simp
    moreover have "A (k + Suc j) (fst (run_stmts (c # cs) s))" using j(2) Inr by simp
    moreover have "snd (run_stmts (c # cs) s) = None \<longrightarrow> Suc j = length (c # cs)"
      using j(3) Inr by simp
    ultimately show ?thesis by (intro exI[of _ "Suc j"]) simp
  qed
qed

lemma vcs_take: "vcs A k cs \<Longrightarrow> vcs A k (take n cs)"
proof (induction cs arbitrary: k n)
  case Nil
  show ?case by simp
next
  case (Cons c cs)
  then show ?case by (cases n) simp_all
qed

lemma run_stmts_ok_Nil: "run_stmts [] s = (s', None) \<longleftrightarrow> s' = s"
  by auto

lemma run_stmts_ok_Cons:
  "run_stmts (c # cs) s = (s', None) \<longleftrightarrow> (\<exists>s1. c s = Inr s1 \<and> run_stmts cs s1 = (s', None))"
  by (cases "c s") simp_all

lemma stages_append: "stages (tr @ tr') = stages tr @ stages tr'"
  by (simp add: stages_def map_filter_def)

section \<open>What each statement does when it returns\<close>

lemma import_from_Inr:
  "import_from w m ns s = Inr s' \<longleftrightarrow>
     lib_module_available w m \<and> s' = s\<lparr>imported := imported s @ ns\<rparr>"
  by (auto simp: import_from_def)

lemma stmt_environ_Inr:
  "stmt_environ s = Inr s' \<longleftrightarrow>
     ''os'' \<in> set (imported s) \<and>
     s' = s\<lparr>environ := (environ s)(''PYTORCH_CUDA_ALLOC_CONF'' \<mapsto> ''max_split_size_mb:512'')\<rparr>"
  by (auto simp: stmt_environ_def name_bound_def)

lemma stmt_empty_cache_Inr:
  "stmt_empty_cache s = Inr s' \<longleftrightarrow>
     ''torch'' \<in> set (imported s) \<and> s' = s\<lparr>trace := trace s @ [CudaEmptyCache]\<rparr>"
  by (auto simp: stmt_empty_cache_def name_bound_def log_def)

lemma stmt_base_model_Inr:
  "stmt_base_model s = Inr s' \<longleftrightarrow>
     s' = s\<lparr>v_base_model := Some ''deepseek-ai/deepseek-coder-6.7b-instruct''\<rparr>"
  by (auto simp: stmt_base_model_def)

lemma stmt_new_model_Inr:
  "stmt_new_model s = Inr s' \<longleftrightarrow>
     s' = s\<lparr>v_new_model := Some ''DeepSeek-6-7b-instruct-Verilog-caseif-V4-256-QKV''\<rparr>"
  by (auto simp: stmt_new_model_def)

lemma stmt_dataset_Inr:
  "stmt_dataset w s = Inr s' \<longleftrightarrow>
     ''load_dataset'' \<in> set (imported s) \<and>
     (\<exists>d. lib_load_dataset w ''json'' ''./Adapted_dataset 3.json'' ''train'' = Inr d \<and>
          s' = s\<lparr>v_dataset := Some d,
                 trace := trace s @ [LoadDataset ''json'' ''./Adapted_dataset 3.json'' ''train'']\<rparr>)"
  by (auto simp: stmt_dataset_def name_bound_def log_def split: sum.splits)

lemma stmt_compute_dtype_Inr:
  "stmt_compute_dtype s = Inr s' \<longleftrightarrow>
     ''torch'' \<in> set (imported s) \<and> s' = s\<lparr>v_compute_dtype := Some (TorchAttr ''float16'')\<rparr>"
  by (auto simp: stmt_compute_dtype_def name_bound_def torch_getattr_def)

lemma stmt_quant_config_Inr:
  "stmt_quant_config w s = Inr s' \<longleftrightarrow>
     ''BitsAndBytesConfig'' \<in> set (imported s) \<and>
     (\<exists>dt. v_compute_dtype s = Some dt \<and>
          lib_bits_and_bytes_config w (quant_config_kwargs dt) = None \<and>
          s' = s\<lparr>v_quant_config := Some (quant_config_kwargs dt),
                 trace := trace s @ [BitsAndBytesConfig (quant_config_kwargs dt)]\<rparr>)"
  by (auto simp: stmt_quant_config_def name_bound_def var_def log_def Let_def
      split: option.splits)

lemma stmt_gpu_id_Inr: "stmt_gpu_id s = Inr s' \<longleftrightarrow> s' = s\<lparr>v_gpu_id := Some ''cuda:0''\<rparr>"
  by (auto simp: stmt_gpu_id_def)

lemma stmt_device_Inr:
  "stmt_device s = Inr s' \<longleftrightarrow>
     ''torch'' \<in> set (imported s) \<and> (\<exists>g. v_gpu_id s = Some g \<and> s' = s\<lparr>v_device := Some g\<rparr>)"
  by (auto simp: stmt_device_def name_bound_def var_def split: option.splits)

lemma stmt_model_Inr:
  "stmt_model w s = Inr s' \<longleftrightarrow>
     ''AutoModelForCausalLM'' \<in> set (imported s) \<and>
     (\<exists>b q c. v_base_model s = Some b \<and> v_quant_config s = Some q \<and>
          lib_model_from_pretrained w b q ''auto'' = Inr c \<and>
          s' = s\<lparr>v_model := Some \<lparr>pretrained_model_name = b, quantization_config = q,
                                   device_map = ''auto'', config = c\<rparr>,
                 trace := trace s @ [ModelFromPretrained b q ''auto'']\<rparr>)"
  by (auto simp: stmt_model_def name_bound_def var_def log_def split: option.splits sum.splits)

lemma stmt_use_cache_Inr:
  "stmt_use_cache s = Inr s' \<longleftrightarrow>
     (\<exists>m. v_model s = Some m \<and>
          s' = s\<lparr>v_model := Some (m\<lparr>config := (config m)\<lparr>use_cache := False\<rparr>\<rparr>)\<rparr>)"
  by (auto simp: stmt_use_cache_def var_def split: option.splits)

lemma stmt_pretraining_tp_Inr:
  "stmt_pretraining_tp s = Inr s' \<longleftrightarrow>
     (\<exists>m. v_model s = Some m \<and>
          s' = s\<lparr>v_model := Some (m\<lparr>config := (config m)\<lparr>pretraining_tp := 1\<rparr>\<rparr>)\<rparr>)"
  by (auto simp: stmt_pretraining_tp_def var_def split: option.splits)

lemma stmt_tokenizer_Inr:
  "stmt_tokenizer w s = Inr s' \<longleftrightarrow>
     ''AutoTokenizer'' \<in> set (imported s) \<and>
     (\<exists>b eos pad side. v_base_model s = Some b \<and>
          lib_tokenizer_from_pretrained w b True = Inr (eos, pad, side) \<and>
          s' = s\<lparr>v_tokenizer := Some \<lparr>tokenizer_name = b, trust_remote_code = True,
                                       eos_token = eos, pad_token = pad,
                                       padding_side = side\<rparr>,
                 trace := trace s @ [TokenizerFromPretrained b True]\<rparr>)"
  by (auto simp: stmt_tokenizer_def name_bound_def var_def log_def
      split: option.splits sum.splits prod.splits)

lemma stmt_pad_token_Inr:
  "stmt_pad_token s = Inr s' \<longleftrightarrow>
     (\<exists>t. v_tokenizer s = Some t \<and> s' = s\<lparr>v_tokenizer := Some (t\<lparr>pad_token := eos_token t\<rparr>)\<rparr>)"
  by (auto simp: stmt_pad_token_def var_def split: option.splits)

lemma stmt_padding_side_Inr:
  "stmt_padding_side s = Inr s' \<longleftrightarrow>
     (\<exists>t. v_tokenizer s = Some t \<and>
          s' = s\<lparr>v_tokenizer := Some (t\<lparr>padding_side := ''right''\<rparr>)\<rparr>)"
  by (auto simp: stmt_padding_side_def var_def split: option.splits)

lemma stmt_target_modules_Inr:
  "stmt_target_modules s = Inr s' \<longleftrightarrow>
     s' = s\<lparr>v_target_modules := Some [''q_proj'', ''k_proj'', ''v_proj'']\<rparr>"
  by (auto simp: stmt_target_modules_def)

lemma stmt_peft_params_Inr:
  "stmt_peft_params w s = Inr s' \<longleftrightarrow>
     ''LoraConfig'' \<in> set (imported s) \<and>
     (\<exists>tm. v_target_modules s = Some tm \<and>
          lib_lora_config w (lora_config_kwargs tm) = None \<and>
          s' = s\<lparr>v_peft_params := Some (lora_config_kwargs tm),
                 trace := trace s @ [LoraConfig (lora_config_kwargs tm)]\<rparr>)"
  by (auto simp: stmt_peft_params_def name_bound_def var_def log_def Let_def
      split: option.splits)

lemma stmt_training_params_Inr:
  "stmt_training_params w s = Inr s' \<longleftrightarrow>
     ''TrainingArguments'' \<in> set (imported s) \<and>
     lib_training_arguments w training_arguments_kwargs = None \<and>
     s' = s\<lparr>v_training_params := Some training_arguments_kwargs,
            trace := trace s @ [TrainingArguments training_arguments_kwargs]\<rparr>"
  by (auto simp: stmt_training_params_def name_bound_def log_def Let_def split: option.splits)

lemma stmt_trainer_Inr:
  "stmt_trainer w s = Inr s' \<longleftrightarrow>
     ''SFTTrainer'' \<in> set (imported s) \<and>
     (\<exists>m d p tk a. v_model s = Some m \<and> v_dataset s = Some d \<and> v_peft_params s = Some p \<and>
          v_tokenizer s = Some tk \<and> v_training_params s = Some a \<and>
          lib_sft_trainer w
            \<lparr>model = m, train_dataset = d, peft_config = p, dataset_text_field = ''text'',
             max_seq_length = 2048, tokenizer = tk, args = a, packing = False\<rparr> = None \<and>
          s' = s\<lparr>v_trainer :=
                   Some \<lparr>model = m, train_dataset = d, peft_config = p,
                         dataset_text_field = ''text'', max_seq_length = 2048,
                         tokenizer = tk, args = a, packing = False\<rparr>,
                 trace := trace s @
                   [SFTTrainer \<lparr>model = m, train_dataset = d, peft_config = p,
                                dataset_text_field = ''text'', max_seq_length = 2048,
                                tokenizer = tk, args = a, packing = False\<rparr>]\<rparr>)"
  by (auto simp: stmt_trainer_def name_bound_def var_def log_def Let_def split: option.splits)

lemma stmt_train_Inr:
  "stmt_train w s = Inr s' \<longleftrightarrow>
     (\<exists>t. v_trainer s = Some t \<and> lib_train w t = None \<and> s' = s\<lparr>trace := trace s @ [Train]\<rparr>)"
  by (auto simp: stmt_train_def var_def log_def split: option.splits)

lemma stmt_save_model_Inr:
  "stmt_save_model w s = Inr s' \<longleftrightarrow>
     (\<exists>t d. v_trainer s = Some t \<and> v_new_model s = Some d \<and>
          lib_model_save_pretrained w (model t) d = None \<and>
          s' = s\<lparr>trace := trace s @ [ModelSavePretrained (model t) d]\<rparr>)"
  by (auto simp: stmt_save_model_def var_def log_def split: option.splits)

lemma stmt_save_tokenizer_Inr:
  "stmt_save_tokenizer w s = Inr s' \<longleftrightarrow>
     (\<exists>t d. v_trainer s = Some t \<and> v_new_model s = Some d \<and>
          lib_tokenizer_save_pretrained w (tokenizer t) d = None \<and>
          s' = s\<lparr>trace := trace s @ [TokenizerSavePretrained (tokenizer t) d]\<rparr>)"
  by (auto simp: stmt_save_tokenizer_def var_def log_def split: option.splits)

lemmas stmt_Inr =
  import_from_Inr stmt_environ_Inr stmt_empty_cache_Inr stmt_base_model_Inr
  stmt_new_model_Inr stmt_dataset_Inr stmt_compute_dtype_Inr stmt_quant_config_Inr
  stmt_gpu_id_Inr stmt_device_Inr stmt_model_Inr stmt_use_cache_Inr
  stmt_pretraining_tp_Inr stmt_tokenizer_Inr stmt_pad_token_Inr stmt_padding_side_Inr
  stmt_target_modules_Inr stmt_peft_params_Inr stmt_training_params_Inr stmt_trainer_Inr
  stmt_train_Inr stmt_save_model_Inr stmt_save_tokenizer_Inr

section \<open>The invariants hold along every run\<close>

lemma stages_snoc:
  "stages (tr @ [e]) = stages tr @ (case stage_of e of None \<Rightarrow> [] | Some x \<Rightarrow> [x])"
  by (simp add: stages_def map_filter_def split: option.splits)

lemma length_notebook: "length (concat (notebook w)) = 28"
  by (simp add: notebook_def cell_defs)

lemma vcs_config_inv: "vcs (\<lambda>_. config_inv) 0 (concat (notebook w))"
  by (simp add: notebook_def cell_defs; intro conjI; clarsimp simp: vc_def stmt_Inr;
      simp add: config_inv_def)

lemma vcs_pos_inv: "vcs pos_inv 0 (concat (notebook w))"
  by (simp add: notebook_def cell_defs; intro conjI; clarsimp simp: vc_def stmt_Inr;
      simp add: pos_inv_def stage_count_def pipeline_order_def stages_snoc; blast)

lemma init_config_inv: "config_inv (initial_state w)"
  by (simp add: config_inv_def initial_state_def)

lemma init_pos_inv: "pos_inv 0 (initial_state w)"
  by (simp add: pos_inv_def initial_state_def stage_count_def stages_def)

lemma prefix_run_config_inv:
  "config_inv (fst (run_stmts (take n (concat (notebook w))) (initial_state w)))"
  using vcs_run[OF vcs_take[OF vcs_config_inv] init_config_inv, of n w] by auto

lemma run_all_config_inv: "config_inv (fst (run_all w))"
  using vcs_run[OF vcs_config_inv init_config_inv, of w] by (auto simp: run_all_def)

lemma prefix_run_pos:
  "\<exists>k\<le>min 28 n. pos_inv k (fst (run_stmts (take n (concat (notebook w))) (initial_state w))) \<and>
     (snd (run_stmts (take n (concat (notebook w))) (initial_state w)) = None \<longrightarrow> k = min 28 n)"
  using vcs_run[OF vcs_take[OF vcs_pos_inv] init_pos_inv, of n w]
  by (simp add: length_notebook)

lemma run_all_pos:
  "\<exists>k\<le>28. pos_inv k (fst (run_all w)) \<and> (snd (run_all w) = None \<longrightarrow> k = 28)"
  using vcs_run[OF vcs_pos_inv init_pos_inv, of w]
  by (simp add: length_notebook run_all_def)

lemma run_all_ok_pos: "snd (run_all w) = None \<Longrightarrow> pos_inv 28 (fst (run_all w))"
  using run_all_pos[of w] by auto

lemma run_all_event_ok: "e \<in> set (trace (fst (run_all w))) \<Longrightarrow> event_ok e"
  using run_all_config_inv[of w] by (simp add: config_inv_def)

lemmas run_defs = run_all_def notebook_def cell_defs stmt_defs initial_state_def Let_def

lemmas sample_defs = sample_state_def sample_trainer_def sample_model_def sample_tokenizer_def

lemma sample_run: "run_all sample_world = (sample_state, None)"
  by (simp add: run_defs sample_world_def sample_defs)

lemma sample_run_ok: "snd (run_all sample_world) = None"
  by (simp add: sample_run)

lemma sample_state_trainer: "SFTTrainer sample_trainer \<in> set (trace sample_state)"
  by (simp add: sample_state_def)

section \<open>The claims\<close>

text \<open>
  C1. The configuration values passed to the trainer are the literal values declared in
  the notebook: in every run, whatever the libraries answer, the \<^verbatim>\<open>LoraConfig\<close>
  object handed to \<^verbatim>\<open>SFTTrainer\<close> holds rank \<open>r = 256\<close>, and the
  \<^verbatim>\<open>TrainingArguments\<close> object handed to it holds learning rate \<^verbatim>\<open>3e-4\<close> and
  \<open>num_train_epochs = 1\<close>; and a run that completes has constructed the trainer.
\<close>

theorem trainer_receives_declared_values:
  "(SFTTrainer t \<in> set (trace (fst (run_all w))) \<longrightarrow>
      r (peft_config t) = 256 \<and>
      learning_rate (args t) = Dec 3 (-4) \<and>
      num_train_epochs (args t) = 1) \<and>
   (snd (run_all w) = None \<longrightarrow>
      (\<exists>t'. v_trainer (fst (run_all w)) = Some t' \<and>
            SFTTrainer t' \<in> set (trace (fst (run_all w)))))"
proof (intro conjI impI)
  assume "SFTTrainer t \<in> set (trace (fst (run_all w)))"
  then have "event_ok (SFTTrainer t)" by (rule run_all_event_ok)
  then have p: "peft_config t = lora_config_kwargs [''q_proj'', ''k_proj'', ''v_proj'']"
    and a: "args t = training_arguments_kwargs" by simp_all
  show "r (peft_config t) = 256" by (simp add: p lora_config_kwargs_def)
  show "learning_rate (args t) = Dec 3 (-4)" by (simp add: a training_arguments_kwargs_def)
  show "num_train_epochs (args t) = 1" by (simp add: a training_arguments_kwargs_def)
next
  assume "snd (run_all w) = None"
  then have "pos_inv 28 (fst (run_all w))" by (rule run_all_ok_pos)
  then obtain t' where "v_trainer (fst (run_all w)) = Some t'" by (auto simp: pos_inv_def)
  moreover from this have "SFTTrainer t' \<in> set (trace (fst (run_all w)))"
    using run_all_config_inv[of w] by (simp add: config_inv_def)
  ultimately show "\<exists>t'. v_trainer (fst (run_all w)) = Some t' \<and>
            SFTTrainer t' \<in> set (trace (fst (run_all w)))" by auto
qed

theorem trainer_receives_declared_values_witness:
  "snd (run_all sample_world) = None \<and>
   (\<exists>t. SFTTrainer t \<in> set (trace (fst (run_all sample_world))) \<and>
        r (peft_config t) = 256 \<and>
        learning_rate (args t) = Dec 3 (-4) \<and>
        num_train_epochs (args t) = 1)"
proof -
  have t: "SFTTrainer sample_trainer \<in> set (trace (fst (run_all sample_world)))"
    using sample_state_trainer by (simp add: sample_run)
  from trainer_receives_declared_values[of sample_trainer sample_world] t sample_run_ok
  show ?thesis by blast
qed

text \<open>
  C10. The adapter scaling factor equals the adapter rank: the \<^verbatim>\<open>LoraConfig\<close> object
  the notebook constructs, which is the one the trainer receives, has
  \<open>lora_alpha = r = 256\<close>, so the ratio \<open>lora_alpha / r\<close> is one; the configuration
  holds a single \<open>lora_alpha\<close> and a single \<open>r\<close> for all of its target modules
  \<open>q_proj\<close>, \<open>k_proj\<close>, \<open>v_proj\<close>.
\<close>

theorem lora_alpha_equals_rank:
  "LoraConfig p \<in> set (trace (fst (run_all w))) \<or>
   (\<exists>t. SFTTrainer t \<in> set (trace (fst (run_all w))) \<and> peft_config t = p) \<Longrightarrow>
   lora_alpha p = r p \<and> r p = 256 \<and>
   real_of_int (lora_alpha p) / real_of_int (r p) = 1 \<and>
   target_modules p = [''q_proj'', ''k_proj'', ''v_proj'']"
proof -
  assume "LoraConfig p \<in> set (trace (fst (run_all w))) \<or>
   (\<exists>t. SFTTrainer t \<in> set (trace (fst (run_all w))) \<and> peft_config t = p)"
  then have "p = lora_config_kwargs [''q_proj'', ''k_proj'', ''v_proj'']"
    using run_all_event_ok[of _ w] by fastforce
  then show ?thesis by (simp add: lora_config_kwargs_def)
qed

theorem lora_alpha_equals_rank_witness:
  "\<exists>t. SFTTrainer t \<in> set (trace (fst (run_all sample_world))) \<and>
       lora_alpha (peft_config t) = r (peft_config t) \<and> r (peft_config t) = 256 \<and>
       real_of_int (lora_alpha (peft_config t)) / real_of_int (r (peft_config t)) = 1 \<and>
       target_modules (peft_config t) = [''q_proj'', ''k_proj'', ''v_proj'']"
proof -
  have t: "SFTTrainer sample_trainer \<in> set (trace (fst (run_all sample_world)))"
    using sample_state_trainer by (simp add: sample_run)
  then have "LoraConfig (peft_config sample_trainer) \<in> set (trace (fst (run_all sample_world))) \<or>
   (\<exists>t'. SFTTrainer t' \<in> set (trace (fst (run_all sample_world))) \<and>
      peft_config t' = peft_config sample_trainer)"
    by blast
  from lora_alpha_equals_rank[OF this] t show ?thesis by blast
qed

lemma sample_state_model: "\<exists>m. v_model sample_state = Some m"
  by (simp add: sample_state_def)

text \<open>
  C4. The model and tokenizer loader (the model cell followed by the tokenizer cell),
  started in any state and returning, yields a model handle whose \<open>use_cache\<close> is
  \<open>False\<close> and a tokenizer loaded under the same name as the model, whose padding
  token is its end-of-sequence token and whose padding side is \<open>right\<close>; and in every
  run of the notebook the handles the trainer receives still have these properties.
\<close>

theorem loader_yields_configured_handles:
  "(run_stmts (cell_model w @ cell_tokenizer w) s = (s', None) \<longrightarrow>
      (\<exists>m tk. v_model s' = Some m \<and> v_tokenizer s' = Some tk \<and>
         \<not> use_cache (config m) \<and>
         tokenizer_name tk = pretrained_model_name m \<and>
         pad_token tk = eos_token tk \<and>
         padding_side tk = ''right'')) \<and>
   (SFTTrainer t \<in> set (trace (fst (run_all w))) \<longrightarrow>
      \<not> use_cache (config (model t)) \<and>
      tokenizer_name (tokenizer t) = pretrained_model_name (model t) \<and>
      pad_token (tokenizer t) = eos_token (tokenizer t) \<and>
      padding_side (tokenizer t) = ''right'')"
proof (rule conjI; rule impI)
  assume "run_stmts (cell_model w @ cell_tokenizer w) s = (s', None)"
  then show "\<exists>m tk. v_model s' = Some m \<and> v_tokenizer s' = Some tk \<and>
         \<not> use_cache (config m) \<and>
         tokenizer_name tk = pretrained_model_name m \<and>
         pad_token tk = eos_token tk \<and>
         padding_side tk = ''right''"
    by (clarsimp simp: cell_model_def cell_tokenizer_def run_stmts_ok_Cons run_stmts_ok_Nil
          stmt_Inr simp del: run_stmts.simps)
next
  assume t: "SFTTrainer t \<in> set (trace (fst (run_all w)))"
  from run_all_pos[of w] obtain k where "pos_inv k (fst (run_all w))" by blast
  with t have "\<not> use_cache (config (model t)) \<and>
      pad_token (tokenizer t) = eos_token (tokenizer t) \<and>
      padding_side (tokenizer t) = ''right''" by (simp add: pos_inv_def)
  moreover from t have "event_ok (SFTTrainer t)" by (rule run_all_event_ok)
  ultimately show "\<not> use_cache (config (model t)) \<and>
      tokenizer_name (tokenizer t) = pretrained_model_name (model t) \<and>
      pad_token (tokenizer t) = eos_token (tokenizer t) \<and>
      padding_side (tokenizer t) = ''right''" by simp
qed


theorem loader_yields_configured_handles_witness:
  "snd (run_stmts (cell_model sample_world @ cell_tokenizer sample_world) sample_state) = None \<and>
   (\<exists>m tk.
      v_model (fst (run_stmts (cell_model sample_world @ cell_tokenizer sample_world)
                 sample_state)) = Some m \<and>
      v_tokenizer (fst (run_stmts (cell_model sample_world @ cell_tokenizer sample_world)
                     sample_state)) = Some tk \<and>
      \<not> use_cache (config m) \<and> tokenizer_name tk = pretrained_model_name m \<and>
      pad_token tk = eos_token tk \<and> padding_side tk = ''right'') \<and>
   (\<exists>t. SFTTrainer t \<in> set (trace (fst (run_all sample_world))) \<and>
      \<not> use_cache (config (model t)) \<and>
      tokenizer_name (tokenizer t) = pretrained_model_name (model t) \<and>
      pad_token (tokenizer t) = eos_token (tokenizer t) \<and>
      padding_side (tokenizer t) = ''right'')"
proof -
  let ?run = "run_stmts (cell_model sample_world @ cell_tokenizer sample_world) sample_state"
  have ok: "snd ?run = None"
    by (simp add: sample_defs run_defs sample_world_def)
  then have h: "?run = (fst ?run, None)" by (simp add: prod_eq_iff)
  have t: "SFTTrainer sample_trainer \<in> set (trace (fst (run_all sample_world)))"
    using sample_state_trainer by (simp add: sample_run)
  from loader_yields_configured_handles[of sample_world sample_state "fst ?run" sample_trainer]
    h t ok
  show ?thesis by blast
qed



lemma config_inv_quant:
  "config_inv s \<Longrightarrow> v_quant_config s = Some q \<Longrightarrow>
   q = quant_config_kwargs (TorchAttr ''float16'')"
  by (simp add: config_inv_def)

lemma config_inv_model_loaded:
  "config_inv s \<Longrightarrow> ModelFromPretrained b q d \<in> set (trace s) \<Longrightarrow>
   \<exists>q'. v_quant_config s = Some q'"
  unfolding config_inv_def by blast

lemma count_take_quant: "count_list (take n pipeline_order) QuantConfig \<le> 1"
proof -
  have "count_list (take n pipeline_order) QuantConfig + count_list (drop n pipeline_order) QuantConfig
        = count_list (take n pipeline_order @ drop n pipeline_order) QuantConfig"
    by (simp only: count_list_append)
  also have "\<dots> = 1" by (simp add: pipeline_order_def)
  finally show ?thesis by linarith
qed

lemma later_statements_keep_quant_config:
  "c \<in> set (concat (drop 4 (notebook w))) \<Longrightarrow> c s1 = Inr s2 \<Longrightarrow>
   v_quant_config s2 = v_quant_config s1"
  apply (simp add: notebook_def cell_defs)
  apply (elim disjE; clarsimp simp: stmt_Inr)
  done

lemma cell_quant_result:
  "run_stmts (cell_quant w) s = (s', None) \<Longrightarrow> v_quant_config s' =
        Some \<lparr>load_in_4bit = True, bnb_4bit_quant_type = ''nf4'',
              bnb_4bit_compute_dtype = TorchAttr ''float16'',
              bnb_4bit_use_double_quant = True\<rparr>"
    by (clarsimp simp: cell_quant_def run_stmts_ok_Cons run_stmts_ok_Nil stmt_Inr
          quant_config_kwargs_def simp del: run_stmts.simps)

text \<open>
  C5. The quantization configuration the cell constructs enables 4-bit loading with
  quantization type \<open>nf4\<close>, compute dtype \<^verbatim>\<open>torch.float16\<close> and double quantization.
  The model load receives exactly this configuration, the run constructs it at most
  once, the variable still holds it wherever the run ends, and no statement from the
  model cell on changes the variable.
\<close>

theorem quant_config_literal_and_unchanged:
  "(run_stmts (cell_quant w) s = (s', None) \<longrightarrow>
      v_quant_config s' =
        Some \<lparr>load_in_4bit = True, bnb_4bit_quant_type = ''nf4'',
              bnb_4bit_compute_dtype = TorchAttr ''float16'',
              bnb_4bit_use_double_quant = True\<rparr>) \<and>
   (ModelFromPretrained b q d \<in> set (trace (fst (run_all w))) \<longrightarrow>
      q = \<lparr>load_in_4bit = True, bnb_4bit_quant_type = ''nf4'',
           bnb_4bit_compute_dtype = TorchAttr ''float16'',
           bnb_4bit_use_double_quant = True\<rparr> \<and>
      v_quant_config (fst (run_all w)) = Some q) \<and>
   count_list (stages (trace (fst (run_all w)))) QuantConfig \<le> 1 \<and>
   (c \<in> set (concat (drop 4 (notebook w))) \<longrightarrow> c s1 = Inr s2 \<longrightarrow>
      v_quant_config s2 = v_quant_config s1)"
proof -
  have A: "run_stmts (cell_quant w) s = (s', None) \<longrightarrow>
      v_quant_config s' =
        Some \<lparr>load_in_4bit = True, bnb_4bit_quant_type = ''nf4'',
              bnb_4bit_compute_dtype = TorchAttr ''float16'',
              bnb_4bit_use_double_quant = True\<rparr>"
    by (rule impI) (rule cell_quant_result)
  have B: "ModelFromPretrained b q d \<in> set (trace (fst (run_all w))) \<longrightarrow>
      q = \<lparr>load_in_4bit = True, bnb_4bit_quant_type = ''nf4'',
           bnb_4bit_compute_dtype = TorchAttr ''float16'',
           bnb_4bit_use_double_quant = True\<rparr> \<and>
      v_quant_config (fst (run_all w)) = Some q"
  proof
    assume m: "ModelFromPretrained b q d \<in> set (trace (fst (run_all w)))"
    then have "event_ok (ModelFromPretrained b q d)" by (rule run_all_event_ok)
    then have q: "q = quant_config_kwargs (TorchAttr ''float16'')" by simp
    have ci: "config_inv (fst (run_all w))" by (rule run_all_config_inv)
    from config_inv_model_loaded[OF ci m] obtain q' where
      q': "v_quant_config (fst (run_all w)) = Some q'" by blast
    from config_inv_quant[OF ci q'] q'
    have "v_quant_config (fst (run_all w)) = Some (quant_config_kwargs (TorchAttr ''float16''))"
      by simp
    with q show "q = \<lparr>load_in_4bit = True, bnb_4bit_quant_type = ''nf4'',
           bnb_4bit_compute_dtype = TorchAttr ''float16'',
           bnb_4bit_use_double_quant = True\<rparr> \<and>
      v_quant_config (fst (run_all w)) = Some q"
      by (simp add: quant_config_kwargs_def)
  qed
  have C: "count_list (stages (trace (fst (run_all w)))) QuantConfig \<le> 1"
  proof -
    from run_all_pos[of w] obtain k where "pos_inv k (fst (run_all w))" by blast
    then have "stages (trace (fst (run_all w))) = take (stage_count k) pipeline_order"
      by (simp add: pos_inv_def)
    then show ?thesis by (simp only: count_take_quant)
  qed
  have D: "c \<in> set (concat (drop 4 (notebook w))) \<longrightarrow> c s1 = Inr s2 \<longrightarrow>
      v_quant_config s2 = v_quant_config s1"
    by (intro impI) (rule later_statements_keep_quant_config)
  show ?thesis by (intro conjI A B C D)
qed

theorem quant_config_literal_and_unchanged_witness:
  "snd (run_stmts (cell_quant sample_world) sample_state) = None \<and>
   v_quant_config (fst (run_stmts (cell_quant sample_world) sample_state)) =
     Some \<lparr>load_in_4bit = True, bnb_4bit_quant_type = ''nf4'',
           bnb_4bit_compute_dtype = TorchAttr ''float16'',
           bnb_4bit_use_double_quant = True\<rparr> \<and>
   ModelFromPretrained ''deepseek-ai/deepseek-coder-6.7b-instruct''
      \<lparr>load_in_4bit = True, bnb_4bit_quant_type = ''nf4'',
       bnb_4bit_compute_dtype = TorchAttr ''float16'',
       bnb_4bit_use_double_quant = True\<rparr> ''auto'' \<in> set (trace (fst (run_all sample_world))) \<and>
   v_quant_config (fst (run_all sample_world)) =
     Some \<lparr>load_in_4bit = True, bnb_4bit_quant_type = ''nf4'',
           bnb_4bit_compute_dtype = TorchAttr ''float16'',
           bnb_4bit_use_double_quant = True\<rparr> \<and>
   stmt_use_cache \<in> set (concat (drop 4 (notebook sample_world))) \<and>
   (\<exists>s2. stmt_use_cache sample_state = Inr s2 \<and>
      v_quant_config s2 = v_quant_config sample_state)"
proof -
  let ?run = "run_stmts (cell_quant sample_world) sample_state"
  let ?q = "\<lparr>load_in_4bit = True, bnb_4bit_quant_type = ''nf4'',
       bnb_4bit_compute_dtype = TorchAttr ''float16'',
       bnb_4bit_use_double_quant = True\<rparr>"
  have ok: "snd ?run = None"
    by (simp add: sample_defs run_defs sample_world_def)
  then have h: "?run = (fst ?run, None)" by (simp add: prod_eq_iff)
  have m: "ModelFromPretrained ''deepseek-ai/deepseek-coder-6.7b-instruct'' ?q ''auto''
      \<in> set (trace (fst (run_all sample_world)))"
    by (simp add: sample_run sample_state_def quant_config_kwargs_def)
  have c: "stmt_use_cache \<in> set (concat (drop 4 (notebook sample_world)))"
    by (simp add: notebook_def cell_defs)
  obtain s2 where s2: "stmt_use_cache sample_state = Inr s2"
    using sample_state_model by (auto simp: stmt_use_cache_Inr)
  from quant_config_literal_and_unchanged[of sample_world sample_state "fst ?run"
      "''deepseek-ai/deepseek-coder-6.7b-instruct''" ?q "''auto''"
      stmt_use_cache sample_state s2] h m c s2 ok
  show ?thesis by blast
qed

lemma run_all_stages:
  "\<exists>n. stages (trace (fst (run_all w))) = take n pipeline_order"
proof -
  from run_all_pos[of w] obtain k where "pos_inv k (fst (run_all w))" by blast
  then have "stages (trace (fst (run_all w))) = take (stage_count k) pipeline_order"
    by (simp add: pos_inv_def)
  then show ?thesis by (rule exI)
qed

lemma run_all_ok_stages:
  "snd (run_all w) = None \<Longrightarrow> stages (trace (fst (run_all w))) = pipeline_order"
proof -
  assume "snd (run_all w) = None"
  then have "pos_inv 28 (fst (run_all w))" by (rule run_all_ok_pos)
  then have "stages (trace (fst (run_all w))) = take (stage_count 28) pipeline_order"
    by (simp add: pos_inv_def)
  then show ?thesis by (simp add: stage_count_def pipeline_order_def)
qed

lemma trainer_needs_inputs:
  "stmt_trainer w s = Inr s' \<Longrightarrow>
   v_dataset s \<noteq> None \<and> v_model s \<noteq> None \<and> v_tokenizer s \<noteq> None \<and>
   v_peft_params s \<noteq> None \<and> v_training_params s \<noteq> None"
  by (clarsimp simp: stmt_trainer_Inr)

lemma model_needs_quant_config: "stmt_model w s = Inr s' \<Longrightarrow> v_quant_config s \<noteq> None"
  by (clarsimp simp: stmt_model_Inr)

lemma sample_state_vars:
  "v_dataset sample_state \<noteq> None \<and> v_model sample_state \<noteq> None \<and>
   v_tokenizer sample_state \<noteq> None \<and> v_peft_params sample_state \<noteq> None \<and>
   v_training_params sample_state \<noteq> None \<and> v_quant_config sample_state \<noteq> None \<and>
   v_base_model sample_state \<noteq> None \<and>
   ''SFTTrainer'' \<in> set (imported sample_state) \<and>
   ''AutoModelForCausalLM'' \<in> set (imported sample_state) \<and>
   ''AutoTokenizer'' \<in> set (imported sample_state)"
  by (simp add: sample_defs)

text \<open>
  C6. The pipeline is one sequential control flow. In every run the completed stages,
  in the order they completed, are an initial part of: dataset load, quantization
  config, model load, tokenizer load, adapter config, training config, trainer
  construction, train, save of the adapter, save of the tokenizer; a run that completes
  has gone through all of them in this order. So the trainer is constructed only after
  its inputs exist, and the saves happen only after \<^verbatim>\<open>train()\<close> has returned.
  In whatever state they are run, the trainer statement returns only if the dataset,
  model, tokenizer, adapter config and training config are bound, and the model load
  returns only if the quantization config is bound.
\<close>

theorem pipeline_runs_in_order:
  "prefix (stages (trace (fst (run_all w)))) pipeline_order \<and>
   (snd (run_all w) = None \<longrightarrow> stages (trace (fst (run_all w))) = pipeline_order) \<and>
   (stmt_trainer w s = Inr s' \<longrightarrow>
      v_dataset s \<noteq> None \<and> v_model s \<noteq> None \<and> v_tokenizer s \<noteq> None \<and>
      v_peft_params s \<noteq> None \<and> v_training_params s \<noteq> None) \<and>
   (stmt_model w s1 = Inr s2 \<longrightarrow> v_quant_config s1 \<noteq> None)"
proof -
  from run_all_stages[of w] obtain n where
    "stages (trace (fst (run_all w))) = take n pipeline_order" by blast
  then have A: "prefix (stages (trace (fst (run_all w)))) pipeline_order"
    by (simp add: take_is_prefix)
  have B: "snd (run_all w) = None \<longrightarrow> stages (trace (fst (run_all w))) = pipeline_order"
    by (rule impI) (rule run_all_ok_stages)
  have C: "stmt_trainer w s = Inr s' \<longrightarrow>
      v_dataset s \<noteq> None \<and> v_model s \<noteq> None \<and> v_tokenizer s \<noteq> None \<and>
      v_peft_params s \<noteq> None \<and> v_training_params s \<noteq> None"
    by (rule impI) (rule trainer_needs_inputs)
  have D: "stmt_model w s1 = Inr s2 \<longrightarrow> v_quant_config s1 \<noteq> None"
    by (rule impI) (rule model_needs_quant_config)
  from A B C D show ?thesis by (intro conjI)
qed

theorem pipeline_runs_in_order_witness:
  "snd (run_all sample_world) = None \<and>
   stages (trace (fst (run_all sample_world))) =
     [DatasetLoad, QuantConfig, ModelLoad, TokenizerLoad, AdapterConfig, TrainingConfig,
      TrainerConstruction, TrainRun, SaveAdapter, SaveTokenizer] \<and>
   (\<exists>s'. stmt_trainer sample_world sample_state = Inr s') \<and>
   v_dataset sample_state \<noteq> None \<and> v_model sample_state \<noteq> None \<and>
   v_tokenizer sample_state \<noteq> None \<and> v_peft_params sample_state \<noteq> None \<and>
   v_training_params sample_state \<noteq> None \<and>
   (\<exists>s2. stmt_model sample_world sample_state = Inr s2) \<and>
   v_quant_config sample_state \<noteq> None"
proof -
  obtain s' where t: "stmt_trainer sample_world sample_state = Inr s'"
    using sample_state_vars by (auto simp: stmt_trainer_Inr sample_world_def)
  obtain s2 where m: "stmt_model sample_world sample_state = Inr s2"
    using sample_state_vars by (auto simp: stmt_model_Inr sample_world_def)
  from pipeline_runs_in_order[of sample_world sample_state s' sample_state s2]
    sample_run_ok t m
  show ?thesis by (simp add: pipeline_order_def)
qed

lemma written_in_dir_contents:
  "e \<in> set tr \<Longrightarrow> (d, a) \<in> set (written e) \<Longrightarrow> a \<in> set (dir_contents tr d)"
  by (force simp: dir_contents_def)

lemma event_ok_written:
  "event_ok e \<Longrightarrow> (d, a) \<in> set (written e) \<Longrightarrow>
   d = ''DeepSeek-6-7b-instruct-Verilog-caseif-V4-256-QKV''"
  by (cases e) simp_all

lemma dir_contents_elsewhere:
  assumes "\<forall>e\<in>set tr. event_ok e" and "d \<noteq> ''DeepSeek-6-7b-instruct-Verilog-caseif-V4-256-QKV''"
  shows "dir_contents tr d = []"
proof -
  have "x \<in> set (concat (map written tr)) \<Longrightarrow> fst x \<noteq> d" for x
  proof -
    assume "x \<in> set (concat (map written tr))"
    then obtain e where e: "e \<in> set tr" "x \<in> set (written e)" by auto
    then have "(fst x, snd x) \<in> set (written e)" by simp
    with e(1) assms(1) have "fst x = ''DeepSeek-6-7b-instruct-Verilog-caseif-V4-256-QKV''"
      using event_ok_written by blast
    with assms(2) show "fst x \<noteq> d" by simp
  qed
  then show ?thesis by (simp add: dir_contents_def filter_empty_conv)
qed

lemma new_model_dir_separate:
  "separate_dirs ''DeepSeek-6-7b-instruct-Verilog-caseif-V4-256-QKV'' ''./Trained_models''"
  by (simp add: separate_dirs_def path_components_def)

lemma run_all_ok_saves:
  assumes "snd (run_all w) = None"
  shows "\<exists>t. SFTTrainer t \<in> set (trace (fst (run_all w))) \<and>
           output_dir (args t) = ''./Trained_models'' \<and>
           ModelSavePretrained (model t)
             ''DeepSeek-6-7b-instruct-Verilog-caseif-V4-256-QKV''
             \<in> set (trace (fst (run_all w))) \<and>
           TokenizerSavePretrained (tokenizer t)
             ''DeepSeek-6-7b-instruct-Verilog-caseif-V4-256-QKV''
             \<in> set (trace (fst (run_all w)))"
proof -
  let ?s = "fst (run_all w)"
  from assms have p: "pos_inv 28 ?s" by (rule run_all_ok_pos)
  from p obtain t d where t: "v_trainer ?s = Some t"
    and m: "ModelSavePretrained (model t) d \<in> set (trace ?s)"
    unfolding pos_inv_def by auto
  from p t obtain d' where k: "TokenizerSavePretrained (tokenizer t) d' \<in> set (trace ?s)"
    unfolding pos_inv_def by auto
  have ci: "config_inv ?s" by (rule run_all_config_inv)
  from ci t have tr: "SFTTrainer t \<in> set (trace ?s)" unfolding config_inv_def by blast
  from run_all_event_ok[OF tr] have "args t = training_arguments_kwargs" by simp
  then have o: "output_dir (args t) = ''./Trained_models''"
    by (simp add: training_arguments_kwargs_def)
  from run_all_event_ok[OF m] have d: "d = ''DeepSeek-6-7b-instruct-Verilog-caseif-V4-256-QKV''"
    by simp
  from run_all_event_ok[OF k] have d': "d' = ''DeepSeek-6-7b-instruct-Verilog-caseif-V4-256-QKV''"
    by simp
  from tr o m k d d' show ?thesis by blast
qed

text \<open>
  C7. After a run that completes, the explicit save calls have put the adapter weights
  of the trainer's model and the files of the trainer's tokenizer into the directory
  named by \<^verbatim>\<open>new_model\<close>, which therefore holds both; this directory is separate from
  the training-output directory \<^verbatim>\<open>./Trained_models\<close> that the trainer was given for its
  checkpoints, and in no run does an explicit save call write into that directory.
\<close>

theorem final_adapter_saved_in_own_directory:
  "(snd (run_all w) = None \<longrightarrow>
      (\<exists>t. SFTTrainer t \<in> set (trace (fst (run_all w))) \<and>
           output_dir (args t) = ''./Trained_models'' \<and>
           ModelSavePretrained (model t)
             ''DeepSeek-6-7b-instruct-Verilog-caseif-V4-256-QKV''
             \<in> set (trace (fst (run_all w))) \<and>
           TokenizerSavePretrained (tokenizer t)
             ''DeepSeek-6-7b-instruct-Verilog-caseif-V4-256-QKV''
             \<in> set (trace (fst (run_all w)))) \<and>
      AdapterWeights \<in> set (dir_contents (trace (fst (run_all w)))
                              ''DeepSeek-6-7b-instruct-Verilog-caseif-V4-256-QKV'') \<and>
      TokenizerFiles \<in> set (dir_contents (trace (fst (run_all w)))
                              ''DeepSeek-6-7b-instruct-Verilog-caseif-V4-256-QKV'')) \<and>
   dir_contents (trace (fst (run_all w))) ''./Trained_models'' = [] \<and>
   separate_dirs ''DeepSeek-6-7b-instruct-Verilog-caseif-V4-256-QKV'' ''./Trained_models''"
proof -
  let ?s = "fst (run_all w)"
  let ?new = "''DeepSeek-6-7b-instruct-Verilog-caseif-V4-256-QKV''"
  have A: "snd (run_all w) = None \<longrightarrow>
      (\<exists>t. SFTTrainer t \<in> set (trace ?s) \<and>
           output_dir (args t) = ''./Trained_models'' \<and>
           ModelSavePretrained (model t) ?new \<in> set (trace ?s) \<and>
           TokenizerSavePretrained (tokenizer t) ?new \<in> set (trace ?s)) \<and>
      AdapterWeights \<in> set (dir_contents (trace ?s) ?new) \<and>
      TokenizerFiles \<in> set (dir_contents (trace ?s) ?new)"
  proof
    assume "snd (run_all w) = None"
    from run_all_ok_saves[OF this] obtain t where
      t: "SFTTrainer t \<in> set (trace ?s)" "output_dir (args t) = ''./Trained_models''"
      and m: "ModelSavePretrained (model t) ?new \<in> set (trace ?s)"
      and k: "TokenizerSavePretrained (tokenizer t) ?new \<in> set (trace ?s)" by blast
    have "AdapterWeights \<in> set (dir_contents (trace ?s) ?new)"
      by (rule written_in_dir_contents[OF m]) simp
    moreover have "TokenizerFiles \<in> set (dir_contents (trace ?s) ?new)"
      by (rule written_in_dir_contents[OF k]) simp
    ultimately show "(\<exists>t. SFTTrainer t \<in> set (trace ?s) \<and>
           output_dir (args t) = ''./Trained_models'' \<and>
           ModelSavePretrained (model t) ?new \<in> set (trace ?s) \<and>
           TokenizerSavePretrained (tokenizer t) ?new \<in> set (trace ?s)) \<and>
      AdapterWeights \<in> set (dir_contents (trace ?s) ?new) \<and>
      TokenizerFiles \<in> set (dir_contents (trace ?s) ?new)"
      using t m k by blast
  qed
  have "\<forall>e\<in>set (trace ?s). event_ok e" using run_all_event_ok by blast
  then have B: "dir_contents (trace ?s) ''./Trained_models'' = []"
    by (rule dir_contents_elsewhere) simp
  from A B new_model_dir_separate show ?thesis by (intro conjI)
qed

theorem final_adapter_saved_in_own_directory_witness:
  "snd (run_all sample_world) = None \<and>
   AdapterWeights \<in> set (dir_contents (trace (fst (run_all sample_world)))
                           ''DeepSeek-6-7b-instruct-Verilog-caseif-V4-256-QKV'') \<and>
   TokenizerFiles \<in> set (dir_contents (trace (fst (run_all sample_world)))
                           ''DeepSeek-6-7b-instruct-Verilog-caseif-V4-256-QKV'') \<and>
   dir_contents (trace (fst (run_all sample_world))) ''./Trained_models'' = []"
  using final_adapter_saved_in_own_directory[of sample_world] sample_run_ok by blast

text \<open>
  C8. Before any model weights are loaded, \<^verbatim>\<open>PYTORCH_CUDA_ALLOC_CONF\<close> is set to
  \<^verbatim>\<open>max_split_size_mb:512\<close>, and it keeps this value for the rest of the run: the
  assignment is the seventh statement of the notebook and the model load the
  sixteenth; after any initial part of the run that contains the assignment the
  variable holds the value, whatever the process environment was before; and a state
  whose trace shows a completed model load is reached only after at least sixteen
  statements, with the variable holding the value.
\<close>

theorem alloc_conf_set_before_model_load:
  "(7 \<le> n \<longrightarrow> run_stmts (take n (concat (notebook w))) (initial_state w) = (s, None) \<longrightarrow>
      environ s ''PYTORCH_CUDA_ALLOC_CONF'' = Some ''max_split_size_mb:512'') \<and>
   (ModelFromPretrained b q d
      \<in> set (trace (fst (run_stmts (take n (concat (notebook w))) (initial_state w)))) \<longrightarrow>
      16 \<le> n \<and>
      environ (fst (run_stmts (take n (concat (notebook w))) (initial_state w)))
        ''PYTORCH_CUDA_ALLOC_CONF'' = Some ''max_split_size_mb:512'') \<and>
   concat (notebook w) ! 6 = stmt_environ \<and>
   concat (notebook w) ! 15 = stmt_model w"
proof -
  let ?run = "run_stmts (take n (concat (notebook w))) (initial_state w)"
  from prefix_run_pos[of n w] obtain k where
    k: "k \<le> min 28 n" "pos_inv k (fst ?run)" "snd ?run = None \<longrightarrow> k = min 28 n"
    by auto
  have A: "7 \<le> n \<longrightarrow> ?run = (s, None) \<longrightarrow>
      environ s ''PYTORCH_CUDA_ALLOC_CONF'' = Some ''max_split_size_mb:512''"
  proof (intro impI)
    assume n: "7 \<le> n" and r: "?run = (s, None)"
    from r k(3) have "k = min 28 n" by simp
    with n have "7 \<le> k" by simp
    with k(2) r show "environ s ''PYTORCH_CUDA_ALLOC_CONF'' = Some ''max_split_size_mb:512''"
      by (simp add: pos_inv_def)
  qed
  have B: "ModelFromPretrained b q d \<in> set (trace (fst ?run)) \<longrightarrow>
      16 \<le> n \<and>
      environ (fst ?run) ''PYTORCH_CUDA_ALLOC_CONF'' = Some ''max_split_size_mb:512''"
  proof
    assume m: "ModelFromPretrained b q d \<in> set (trace (fst ?run))"
    have "\<not> k < 16"
    proof
      assume "k < 16"
      with k(2) have "\<forall>b q d. ModelFromPretrained b q d \<notin> set (trace (fst ?run))"
        by (simp add: pos_inv_def)
      with m show False by blast
    qed
    then have k16: "16 \<le> k" by simp
    with k(1) have "16 \<le> n" by simp
    moreover from k16 have "7 \<le> k" by simp
    with k(2) have "environ (fst ?run) ''PYTORCH_CUDA_ALLOC_CONF'' = Some ''max_split_size_mb:512''"
      by (simp add: pos_inv_def)
    ultimately show "16 \<le> n \<and>
      environ (fst ?run) ''PYTORCH_CUDA_ALLOC_CONF'' = Some ''max_split_size_mb:512''"
      by simp
  qed
  have C: "concat (notebook w) ! 6 = stmt_environ"
    by (simp add: notebook_def cell_defs)
  have D: "concat (notebook w) ! 15 = stmt_model w"
    by (simp add: notebook_def cell_defs)
  from A B C D show ?thesis by (intro conjI)
qed

theorem alloc_conf_set_before_model_load_witness:
  "(7::nat) \<le> 28 \<and>
   run_stmts (take 28 (concat (notebook sample_world))) (initial_state sample_world)
     = (sample_state, None) \<and>
   ModelFromPretrained ''deepseek-ai/deepseek-coder-6.7b-instruct''
      (quant_config_kwargs (TorchAttr ''float16'')) ''auto'' \<in> set (trace sample_state) \<and>
   environ sample_state ''PYTORCH_CUDA_ALLOC_CONF'' = Some ''max_split_size_mb:512''"
proof -
  have r: "run_stmts (take 28 (concat (notebook sample_world))) (initial_state sample_world)
     = (sample_state, None)"
    using sample_run by (simp add: run_all_def length_notebook)
  have m: "ModelFromPretrained ''deepseek-ai/deepseek-coder-6.7b-instruct''
      (quant_config_kwargs (TorchAttr ''float16'')) ''auto'' \<in> set (trace sample_state)"
    by (simp add: sample_state_def)
  from alloc_conf_set_before_model_load[of 28 sample_world sample_state
      "''deepseek-ai/deepseek-coder-6.7b-instruct''"
      "quant_config_kwargs (TorchAttr ''float16'')" "''auto''"] r m
  show ?thesis by simp
qed

text \<open>
  C9. The tokenizer is loaded with \<^verbatim>\<open>trust_remote_code=True\<close>: whenever the tokenizer
  statement returns, the library was asked for the tokenizer of \<^verbatim>\<open>base_model\<close> with
  the flag set; in every run every tokenizer load in the trace carries the flag and the
  base model's name; and a run that completes contains that load.
\<close>

theorem tokenizer_loaded_with_trust_remote_code:
  "(stmt_tokenizer w s = Inr s' \<longrightarrow>
      (\<exists>b eos pad side.
         v_base_model s = Some b \<and>
         lib_tokenizer_from_pretrained w b True = Inr (eos, pad, side) \<and>
         trace s' = trace s @ [TokenizerFromPretrained b True]) \<and>
      (\<exists>tk. v_tokenizer s' = Some tk \<and> trust_remote_code tk)) \<and>
   (TokenizerFromPretrained b f \<in> set (trace (fst (run_all w))) \<longrightarrow>
      f \<and> b = ''deepseek-ai/deepseek-coder-6.7b-instruct'') \<and>
   (snd (run_all w) = None \<longrightarrow>
      TokenizerFromPretrained ''deepseek-ai/deepseek-coder-6.7b-instruct'' True
        \<in> set (trace (fst (run_all w))))"
proof -
  have A: "stmt_tokenizer w s = Inr s' \<longrightarrow>
      (\<exists>b eos pad side.
         v_base_model s = Some b \<and>
         lib_tokenizer_from_pretrained w b True = Inr (eos, pad, side) \<and>
         trace s' = trace s @ [TokenizerFromPretrained b True]) \<and>
      (\<exists>tk. v_tokenizer s' = Some tk \<and> trust_remote_code tk)"
    by (clarsimp simp: stmt_tokenizer_Inr)
  have B: "TokenizerFromPretrained b f \<in> set (trace (fst (run_all w))) \<longrightarrow>
      f \<and> b = ''deepseek-ai/deepseek-coder-6.7b-instruct''"
  proof
    assume "TokenizerFromPretrained b f \<in> set (trace (fst (run_all w)))"
    then have "event_ok (TokenizerFromPretrained b f)" by (rule run_all_event_ok)
    then show "f \<and> b = ''deepseek-ai/deepseek-coder-6.7b-instruct''" by simp
  qed
  have C: "snd (run_all w) = None \<longrightarrow>
      TokenizerFromPretrained ''deepseek-ai/deepseek-coder-6.7b-instruct'' True
        \<in> set (trace (fst (run_all w)))"
  proof
    assume "snd (run_all w) = None"
    then have "pos_inv 28 (fst (run_all w))" by (rule run_all_ok_pos)
    then obtain b' where
      b': "TokenizerFromPretrained b' True \<in> set (trace (fst (run_all w)))"
      unfolding pos_inv_def by auto
    from run_all_event_ok[OF b'] have "b' = ''deepseek-ai/deepseek-coder-6.7b-instruct''"
      by simp
    with b' show "TokenizerFromPretrained ''deepseek-ai/deepseek-coder-6.7b-instruct'' True
        \<in> set (trace (fst (run_all w)))" by simp
  qed
  from A B C show ?thesis by (intro conjI)
qed

theorem tokenizer_loaded_with_trust_remote_code_witness:
  "(\<exists>s'. stmt_tokenizer sample_world sample_state = Inr s' \<and>
        (\<exists>tk. v_tokenizer s' = Some tk \<and> trust_remote_code tk)) \<and>
   snd (run_all sample_world) = None \<and>
   TokenizerFromPretrained ''deepseek-ai/deepseek-coder-6.7b-instruct'' True
     \<in> set (trace (fst (run_all sample_world)))"
proof -
  obtain s' where t: "stmt_tokenizer sample_world sample_state = Inr s'"
    using sample_state_vars by (auto simp: stmt_tokenizer_Inr sample_world_def)
  from tokenizer_loaded_with_trust_remote_code[of sample_world sample_state s'
      "''deepseek-ai/deepseek-coder-6.7b-instruct''" True] t sample_run_ok
  show ?thesis by blast
qed

end
